theory Spec2Isabelle
  imports Main
begin

section \<open>JavaScript values and string primitives\<close>

text \<open>
  The middleware is JavaScript, so a header or a query parameter may hold any value.
  Only three classes of values behave differently in the code under study:
  \<^item> \<open>JNull\<close>: \<open>null\<close>, \<open>undefined\<close> and every other falsy value that is not a string;
  \<^item> \<open>JString s\<close>: a string (falsy exactly when it is empty);
  \<^item> \<open>JObject\<close>: a truthy value that is not a string (an array, an object, a number),
    which has no \<open>split\<close> method.
  Strings are lists of characters; the host names the code inspects are ASCII, and
  \<open>toLowerCase\<close> is modelled on the ASCII letters.
\<close>

datatype jsval = JNull | JString string | JObject

datatype js_error = TypeError | Error string | Rejected

fun truthy :: "jsval \<Rightarrow> bool" where
  "truthy JNull = False"
| "truthy (JString s) = (s \<noteq> [])"
| "truthy JObject = True"

text \<open>The operator \<open>a || b\<close>.\<close>

definition js_or :: "jsval \<Rightarrow> jsval \<Rightarrow> jsval" where
  "js_or a b = (if truthy a then a else b)"

text \<open>\<open>s.split(c)\<close> for a one-character separator: never the empty array.\<close>

fun split_on :: "char \<Rightarrow> string \<Rightarrow> string list" where
  "split_on c [] = [] # []"
| "split_on c (x # xs) =
     (if x = c then [] # split_on c xs
      else (case split_on c xs of
              [] \<Rightarrow> (x # []) # []
            | p # ps \<Rightarrow> (x # p) # ps))"

fun startsWith :: "string \<Rightarrow> string \<Rightarrow> bool" where
  "startsWith s [] = True"
| "startsWith [] (p # ps) = False"
| "startsWith (x # xs) (p # ps) = (x = p \<and> startsWith xs ps)"

text \<open>\<open>s.includes(sub)\<close>: \<open>sub\<close> occurs somewhere in \<open>s\<close>.\<close>

fun str_includes :: "string \<Rightarrow> string \<Rightarrow> bool" where
  "str_includes [] sub = (sub = [])"
| "str_includes (x # xs) sub = (startsWith (x # xs) sub \<or> str_includes xs sub)"

text \<open>\<open>s.indexOf(c)\<close>: the first position of \<open>c\<close>, or \<open>-1\<close>.\<close>

fun indexOf :: "string \<Rightarrow> char \<Rightarrow> int" where
  "indexOf [] c = -1"
| "indexOf (x # xs) c =
     (if x = c then 0
      else (let i = indexOf xs c in if i < 0 then -1 else i + 1))"

text \<open>\<open>s.substring(0, n)\<close>.\<close>

definition substring0 :: "string \<Rightarrow> int \<Rightarrow> string" where
  "substring0 s n = take (nat n) s"

definition lowerChar :: "char \<Rightarrow> char" where
  "lowerChar c =
     (case map_of (zip ''ABCDEFGHIJKLMNOPQRSTUVWXYZ'' ''abcdefghijklmnopqrstuvwxyz'') c of
        Some l \<Rightarrow> l
      | None \<Rightarrow> c)"

definition toLowerCase :: "string \<Rightarrow> string" where
  "toLowerCase s = map lowerChar s"

text \<open>The character class \<open>[a-z0-9]\<close> under the flag \<open>i\<close>, and \<open>[a-z0-9-]\<close>.\<close>

definition alnum :: "char \<Rightarrow> bool" where
  "alnum c = (c \<in> set ''abcdefghijklmnopqrstuvwxyzABCDEFGHIJKLMNOPQRSTUVWXYZ0123456789'')"

definition alnumHyphen :: "char \<Rightarrow> bool" where
  "alnumHyphen c = (alnum c \<or> c = CHR ''-'')"

section \<open>Subdomain extraction\<close>

record headers =
  host :: jsval
  x_forwarded_host :: jsval

text \<open>
  A request: \<open>req.headers\<close> (absent when the caller passes a request without headers, in
  which case reading \<open>req.headers.host\<close> raises a \<open>TypeError\<close>) and the value of
  \<open>req.query?.tenant\<close>.
\<close>

record request =
  req_headers :: "headers option"
  query_tenant :: jsval

definition excludedSubdomains :: "string list" where
  "excludedSubdomains = [''www'', ''api'', ''admin'', ''app'']"

definition extractSubdomain :: "request \<Rightarrow> js_error + jsval" where
  "extractSubdomain req =
     (case req_headers req of
        None \<Rightarrow> Inl TypeError
      | Some hs \<Rightarrow>
          (let hostv = js_or (host hs) (x_forwarded_host hs) in
           if \<not> truthy hostv then Inr JNull
           else (case hostv of
                   JString h \<Rightarrow>
                     (let hostname = hd (split_on CHR '':'' h);
                          parts = split_on CHR ''.'' hostname
                      in if str_includes hostname ''localhost'' \<or> str_includes hostname ''127.0.0.1''
                         then (let dashIndex = indexOf hostname CHR ''-''
                               in if dashIndex > 0
                                  then Inr (JString (substring0 hostname dashIndex))
                                  else Inr (js_or (query_tenant req) (JString ''demo'')))
                         else if length parts \<ge> 3
                         then (let subdomain = hd parts
                               in if toLowerCase subdomain \<in> set excludedSubdomains
                                  then Inr JNull
                                  else Inr (JString subdomain))
                         else Inr JNull)
                 | _ \<Rightarrow> Inl TypeError)))"

section \<open>Subdomain validation\<close>

text \<open>
  \<open>/^[a-z0-9]([a-z0-9-]*[a-z0-9])?$/i.test(s)\<close>: the first character is alphanumeric, and
  either nothing follows, or what follows ends with an alphanumeric character and has
  only alphanumeric characters and hyphens before that.
\<close>

definition subdomainRegex_test :: "string \<Rightarrow> bool" where
  "subdomainRegex_test s =
     (case s of
        [] \<Rightarrow> False
      | c # cs \<Rightarrow> alnum c \<and> (cs = [] \<or> (list_all alnumHyphen (butlast cs) \<and> alnum (last cs))))"

definition reservedSubdomains :: "string list" where
  "reservedSubdomains =
     [''www'', ''api'', ''admin'', ''app'', ''mail'', ''ftp'', ''blog'',
      ''support'', ''help'', ''docs'', ''status'', ''cdn'', ''assets'']"

definition isValidSubdomain :: "jsval \<Rightarrow> bool" where
  "isValidSubdomain v =
     (case v of
        JString subdomain \<Rightarrow>
          if subdomain = [] then False
          else if length subdomain < 2 \<or> length subdomain > 50 then False
          else if \<not> subdomainRegex_test subdomain then False
          else if toLowerCase subdomain \<in> set reservedSubdomains then False
          else True
      | _ \<Rightarrow> False)"

section \<open>The tenant cache and the remote store\<close>

text \<open>A row returned by the stored procedure \<open>get_tenant_by_subdomain\<close>.\<close>

record tenant_row =
  tenant_id :: string
  tenant_name :: string
  tenant_status :: string
  tenant_settings :: "(string \<times> jsval) list option"

text \<open>
  The object \<open>tenantInfo\<close> built by \<open>getTenantInfo\<close>, with the fields \<open>id\<close>,
  \<open>subdomain\<close>, \<open>name\<close>, \<open>status\<close> and \<open>settings\<close>.
\<close>

record tenant_info =
  ti_id :: string
  ti_subdomain :: string
  ti_name :: string
  ti_status :: string
  ti_settings :: "(string \<times> jsval) list"

record cache_entry =
  data :: "tenant_info option"
  timestamp :: int

text \<open>
  What a remote procedure call does: the promise rejects (\<open>RpcThrows\<close>), it resolves
  with a truthy \<open>error\<close> (\<open>RpcError\<close>), or it resolves with \<open>data\<close>.
\<close>

datatype 'a rpc_result = RpcThrows | RpcError | RpcData 'a

text \<open>
  The two stored procedures of the external store. \<open>data\<close> of the lookup is \<open>null\<close>
  or an array of rows.
\<close>

record remote_service =
  get_tenant_by_subdomain :: "string \<Rightarrow> tenant_row list option rpc_result"
  set_tenant_context :: "string \<Rightarrow> unit rpc_result"

datatype rpc_call = GetTenantBySubdomain string | SetTenantContext string

text \<open>
  The state the module works on: the process-wide map \<open>tenantCache\<close>, and the remote
  calls issued so far, in order.
\<close>

record world =
  tenantCache :: "string \<rightharpoonup> cache_entry"
  rpc_log :: "rpc_call list"

definition CACHE_TTL :: int where
  "CACHE_TTL = 5 * 60 * 1000"

definition cacheKey_of :: "string \<Rightarrow> string" where
  "cacheKey_of subdomain = ''tenant:'' @ subdomain"

text \<open>
  The test \<open>cached && (Date.now() - cached.timestamp) < CACHE_TTL\<close>: the entry when it
  is present and fresh.
\<close>

definition fresh_entry :: "int \<Rightarrow> cache_entry option \<Rightarrow> cache_entry option" where
  "fresh_entry now cached =
     (case cached of
        None \<Rightarrow> None
      | Some c \<Rightarrow> if now - timestamp c < CACHE_TTL then Some c else None)"

text \<open>
  \<open>getTenantInfo\<close>. \<open>now\<close> is what \<open>Date.now()\<close> returns at the cache test, \<open>later\<close>
  what it returns when the result is stored, after the remote call.
\<close>

definition getTenantInfo ::
  "remote_service \<Rightarrow> int \<Rightarrow> int \<Rightarrow> string \<Rightarrow> world \<Rightarrow> tenant_info option \<times> world" where
  "getTenantInfo remote now later subdomain w =
     (let cacheKey = cacheKey_of subdomain in
      case fresh_entry now (tenantCache w cacheKey) of
        Some cached \<Rightarrow> (data cached, w)
      | None \<Rightarrow>
          (let w1 = w\<lparr>rpc_log := rpc_log w @ [GetTenantBySubdomain subdomain]\<rparr> in
           case get_tenant_by_subdomain remote subdomain of
             RpcThrows \<Rightarrow> (None, w1)
           | RpcError \<Rightarrow> (None, w1)
           | RpcData d \<Rightarrow>
               (case d of
                  None \<Rightarrow>
                    (None, w1\<lparr>tenantCache := (tenantCache w1)
                              (cacheKey \<mapsto> \<lparr>data = None, timestamp = later\<rparr>)\<rparr>)
                | Some [] \<Rightarrow>
                    (None, w1\<lparr>tenantCache := (tenantCache w1)
                              (cacheKey \<mapsto> \<lparr>data = None, timestamp = later\<rparr>)\<rparr>)
                | Some (tenant # rest) \<Rightarrow>
                    if tenant_status tenant \<noteq> ''active'' then (None, w1)
                    else (let tenantInfo =
                                \<lparr>ti_id = tenant_id tenant,
                                 ti_subdomain = subdomain,
                                 ti_name = tenant_name tenant,
                                 ti_status = tenant_status tenant,
                                 ti_settings = (case tenant_settings tenant of
                                                  None \<Rightarrow> []
                                                | Some st \<Rightarrow> st)\<rparr>
                          in (Some tenantInfo,
                              w1\<lparr>tenantCache := (tenantCache w1)
                                   (cacheKey \<mapsto> \<lparr>data = Some tenantInfo,
                                                timestamp = later\<rparr>)\<rparr>)))))"

text \<open>\<open>setTenantContext\<close>: an error of the remote call is thrown, a rejection rethrown.\<close>

definition setTenantContext ::
  "remote_service \<Rightarrow> string \<Rightarrow> world \<Rightarrow> (js_error + unit) \<times> world" where
  "setTenantContext remote tenantId w =
     (let w1 = w\<lparr>rpc_log := rpc_log w @ [SetTenantContext tenantId]\<rparr> in
      case set_tenant_context remote tenantId of
        RpcThrows \<Rightarrow> (Inl Rejected, w1)
      | RpcError \<Rightarrow> (Inl (Error ''Failed to set tenant context''), w1)
      | RpcData u \<Rightarrow> (Inr (), w1))"

definition clearTenantCache :: "string \<Rightarrow> world \<Rightarrow> world" where
  "clearTenantCache subdomain w =
     w\<lparr>tenantCache := (tenantCache w)(cacheKey_of subdomain := None)\<rparr>"

definition clearAllTenantCache :: "world \<Rightarrow> world" where
  "clearAllTenantCache w = w\<lparr>tenantCache := Map.empty\<rparr>"

section \<open>The resolution orchestrator\<close>

record tenant_error =
  code :: string
  message :: string
  details :: string

record resolve_result =
  error :: "tenant_error option"
  tenant :: "tenant_info option"

text \<open>
  The body of the \<open>try\<close> block of \<open>resolveTenant(req, res)\<close>, with \<open>next\<close> left at its
  default \<open>null\<close>, so that every \<open>if (next)\<close> takes its else branch. \<open>Inl\<close> is an
  exception leaving the block.
\<close>

definition resolveTenant_try ::
  "remote_service \<Rightarrow> int \<Rightarrow> int \<Rightarrow> request \<Rightarrow> world \<Rightarrow> (js_error + resolve_result) \<times> world" where
  "resolveTenant_try remote now later req w =
     (case extractSubdomain req of
        Inl e \<Rightarrow> (Inl e, w)
      | Inr subdomain \<Rightarrow>
          if \<not> truthy subdomain then
            (Inr \<lparr>error = Some
                    \<lparr>code = ''INVALID_SUBDOMAIN'',
                     message = ''No valid subdomain found in request'',
                     details = ''Please access the application using a valid tenant subdomain (e.g., acme.yourapp.com)''\<rparr>,
                  tenant = None\<rparr>, w)
          else if \<not> isValidSubdomain subdomain then
            (Inr \<lparr>error = Some
                    \<lparr>code = ''INVALID_SUBDOMAIN_FORMAT'',
                     message = ''Invalid subdomain format'',
                     details = ''Subdomain must be 2-50 characters, alphanumeric with hyphens allowed''\<rparr>,
                  tenant = None\<rparr>, w)
          else (case subdomain of
                  JString sd \<Rightarrow>
                    (case getTenantInfo remote now later sd w of
                       (None, w1) \<Rightarrow>
                         (Inr \<lparr>error = Some
                                 \<lparr>code = ''TENANT_NOT_FOUND'',
                                  message = ''Tenant not found or inactive'',
                                  details = ''No active tenant found for subdomain: '' @ sd\<rparr>,
                               tenant = None\<rparr>, w1)
                     | (Some t, w1) \<Rightarrow>
                         (case setTenantContext remote (ti_id t) w1 of
                            (Inl e, w2) \<Rightarrow> (Inl e, w2)
                          | (Inr u, w2) \<Rightarrow> (Inr \<lparr>error = None, tenant = Some t\<rparr>, w2)))
                | _ \<Rightarrow> (Inl TypeError, w)))"

text \<open>
  \<open>resolveTenant\<close>: the \<open>catch\<close> clause turns every exception of the body into the
  result with the error \<open>TENANT_RESOLUTION_ERROR\<close>. The result type keeps \<open>Inl\<close> for an
  exception that would leave \<open>resolveTenant\<close> itself.
\<close>

definition resolveTenant ::
  "remote_service \<Rightarrow> int \<Rightarrow> int \<Rightarrow> request \<Rightarrow> world \<Rightarrow> (js_error + resolve_result) \<times> world" where
  "resolveTenant remote now later req w =
     (case resolveTenant_try remote now later req w of
        (Inr r, w') \<Rightarrow> (Inr r, w')
      | (Inl e, w') \<Rightarrow>
          (Inr \<lparr>error = Some
                  \<lparr>code = ''TENANT_RESOLUTION_ERROR'',
                   message = ''Error resolving tenant'',
                   details = ''An internal error occurred while resolving tenant information''\<rparr>,
                tenant = None\<rparr>, w'))"

section \<open>Reachable states and concrete inputs\<close>

text \<open>
  \<open>tenantCache\<close> is private to the module: it starts empty and changes only through the
  lookup, the orchestrator and the two invalidation functions.
\<close>

definition empty_world :: world where
  "empty_world = \<lparr>tenantCache = Map.empty, rpc_log = []\<rparr>"

inductive reachable :: "world \<Rightarrow> bool" where
  init: "reachable empty_world"
| lookup: "reachable w \<Longrightarrow> reachable (snd (getTenantInfo remote now later sd w))"
| resolve: "reachable w \<Longrightarrow> reachable (snd (resolveTenant remote now later req w))"
| clear: "reachable w \<Longrightarrow> reachable (clearTenantCache sd w)"
| clearAll: "reachable w \<Longrightarrow> reachable (clearAllTenantCache w)"

text \<open>Every record held by the cache is an active one.\<close>

definition cache_active_only :: "(string \<rightharpoonup> cache_entry) \<Rightarrow> bool" where
  "cache_active_only c =
     (\<forall>k e t. c k = Some e \<longrightarrow> data e = Some t \<longrightarrow> ti_status t = ''active'')"

definition error_codes :: "string list" where
  "error_codes =
     [''INVALID_SUBDOMAIN'', ''INVALID_SUBDOMAIN_FORMAT'', ''TENANT_NOT_FOUND'',
      ''TENANT_RESOLUTION_ERROR'']"

text \<open>Inputs for the concrete instances below.\<close>

definition req_of_host :: "string \<Rightarrow> request" where
  "req_of_host h = \<lparr>req_headers = Some \<lparr>host = JString h, x_forwarded_host = JNull\<rparr>,
                    query_tenant = JNull\<rparr>"

definition row_with_status :: "string \<Rightarrow> tenant_row" where
  "row_with_status st =
     \<lparr>tenant_id = ''t1'', tenant_name = ''Acme'', tenant_status = st, tenant_settings = None\<rparr>"

definition remote_returning ::
  "tenant_row list option rpc_result \<Rightarrow> unit rpc_result \<Rightarrow> remote_service" where
  "remote_returning lookup ctx =
     \<lparr>get_tenant_by_subdomain = (\<lambda>subdomain. lookup),
      set_tenant_context = (\<lambda>tenantId. ctx)\<rparr>"

definition acme_info :: tenant_info where
  "acme_info = \<lparr>ti_id = ''t1'', ti_subdomain = ''acme'', ti_name = ''Acme'',
                ti_status = ''active'', ti_settings = []\<rparr>"

definition acme_cached :: "int \<Rightarrow> world" where
  "acme_cached t =
     \<lparr>tenantCache = [cacheKey_of ''acme'' \<mapsto> \<lparr>data = Some acme_info, timestamp = t\<rparr>],
      rpc_log = [GetTenantBySubdomain ''acme'']\<rparr>"

definition absent_cached :: "int \<Rightarrow> world" where
  "absent_cached t =
     \<lparr>tenantCache = [cacheKey_of ''ab'' \<mapsto> \<lparr>data = None, timestamp = t\<rparr>],
      rpc_log = [GetTenantBySubdomain ''ab'']\<rparr>"

definition stale_world :: world where
  "stale_world =
     \<lparr>tenantCache = [cacheKey_of ''acme'' \<mapsto> \<lparr>data = None, timestamp = 0\<rparr>], rpc_log = []\<rparr>"

section \<open>Lemmas on strings and validation\<close>

lemma split_on_nonempty: "split_on c s \<noteq> []"
  by (induction s) (auto split: list.splits)

lemma hyphen_not_alnum: "\<not> alnum CHR ''-''"
  by (simp add: alnum_def)

lemma regex_first_last:
  assumes "subdomainRegex_test s"
  shows "s \<noteq> [] \<and> alnum (hd s) \<and> alnum (last s)"
proof (cases s)
  case Nil
  with assms show ?thesis by (simp add: subdomainRegex_test_def)
next
  case (Cons c cs)
  with assms show ?thesis by (cases "cs = []") (auto simp: subdomainRegex_test_def)
qed

lemma isValidSubdomain_truthy: "isValidSubdomain (JString sd) \<Longrightarrow> truthy (JString sd)"
  by (auto simp: isValidSubdomain_def split: if_splits)

lemma acme_extract: "extractSubdomain (req_of_host ''acme.example.com'') = Inr (JString ''acme'')"
  by (simp add: extractSubdomain_def req_of_host_def js_or_def toLowerCase_def lowerChar_def
      excludedSubdomains_def)

lemma acme_valid: "isValidSubdomain (JString ''acme'')"
  by (simp add: isValidSubdomain_def subdomainRegex_test_def alnum_def alnumHyphen_def
      toLowerCase_def lowerChar_def reservedSubdomains_def)

section \<open>Lemmas on the lookup service\<close>

lemma fresh_entry_SomeD: "fresh_entry now c = Some e \<Longrightarrow> c = Some e"
  by (auto simp: fresh_entry_def split: option.splits if_splits)

lemma getTenantInfo_hit:
  assumes "fresh_entry now (tenantCache w (cacheKey_of sd)) = Some c"
  shows "getTenantInfo remote now later sd w = (data c, w)"
  using assms by (simp add: getTenantInfo_def)

lemma getTenantInfo_miss_failure:
  assumes "fresh_entry now (tenantCache w (cacheKey_of sd)) = None"
    and "get_tenant_by_subdomain remote sd = RpcError
         \<or> get_tenant_by_subdomain remote sd = RpcThrows"
  shows "getTenantInfo remote now later sd w
           = (None, w\<lparr>rpc_log := rpc_log w @ [GetTenantBySubdomain sd]\<rparr>)"
  using assms by (auto simp: getTenantInfo_def)

lemma getTenantInfo_miss_absent:
  assumes "fresh_entry now (tenantCache w (cacheKey_of sd)) = None"
    and "get_tenant_by_subdomain remote sd = RpcData d" and "d = None \<or> d = Some []"
  shows "getTenantInfo remote now later sd w
           = (None, w\<lparr>rpc_log := rpc_log w @ [GetTenantBySubdomain sd],
                      tenantCache := (tenantCache w)
                         (cacheKey_of sd \<mapsto> \<lparr>data = None, timestamp = later\<rparr>)\<rparr>)"
  using assms by (auto simp: getTenantInfo_def)

lemma getTenantInfo_miss_inactive:
  assumes "fresh_entry now (tenantCache w (cacheKey_of sd)) = None"
    and "get_tenant_by_subdomain remote sd = RpcData (Some (row # rest))"
    and "tenant_status row \<noteq> ''active''"
  shows "getTenantInfo remote now later sd w
           = (None, w\<lparr>rpc_log := rpc_log w @ [GetTenantBySubdomain sd]\<rparr>)"
  using assms by (simp add: getTenantInfo_def)

lemma getTenantInfo_miss_active:
  assumes "fresh_entry now (tenantCache w (cacheKey_of sd)) = None"
    and "get_tenant_by_subdomain remote sd = RpcData (Some (row # rest))"
    and "tenant_status row = ''active''"
    and "info = \<lparr>ti_id = tenant_id row, ti_subdomain = sd, ti_name = tenant_name row,
                 ti_status = ''active'',
                 ti_settings = (case tenant_settings row of None \<Rightarrow> [] | Some st \<Rightarrow> st)\<rparr>"
  shows "getTenantInfo remote now later sd w
           = (Some info, w\<lparr>rpc_log := rpc_log w @ [GetTenantBySubdomain sd],
                           tenantCache := (tenantCache w)
                             (cacheKey_of sd \<mapsto> \<lparr>data = Some info, timestamp = later\<rparr>)\<rparr>)"
  using assms by (simp add: getTenantInfo_def Let_def)

lemma getTenantInfo_log:
  "rpc_log (snd (getTenantInfo remote now later sd w)) = rpc_log w
   \<or> rpc_log (snd (getTenantInfo remote now later sd w)) = rpc_log w @ [GetTenantBySubdomain sd]"
  by (auto simp: getTenantInfo_def Let_def split: option.splits rpc_result.splits list.splits)

lemma getTenantInfo_miss_log:
  assumes "fresh_entry now (tenantCache w (cacheKey_of sd)) = None"
  shows "rpc_log (snd (getTenantInfo remote now later sd w))
           = rpc_log w @ [GetTenantBySubdomain sd]"
  using assms
  by (auto simp: getTenantInfo_def Let_def split: rpc_result.splits option.splits list.splits)

lemma fresh_entry_later:
  assumes "fresh_entry now1 c = None" and "now1 \<le> now2"
  shows "fresh_entry now2 c = None"
  using assms by (auto simp: fresh_entry_def split: option.splits if_splits)

lemma acme_lookup:
  "getTenantInfo (remote_returning (RpcData (Some [row_with_status ''active''])) ctx)
       0 1 ''acme'' empty_world = (Some acme_info, acme_cached 1)"
  by (simp add: getTenantInfo_def fresh_entry_def empty_world_def remote_returning_def
      row_with_status_def acme_info_def acme_cached_def Let_def)

lemma getTenantInfo_active:
  assumes "cache_active_only (tenantCache w)"
    and "getTenantInfo remote now later sd w = (Some t, w')"
  shows "ti_status t = ''active''"
proof (cases "fresh_entry now (tenantCache w (cacheKey_of sd))")
  case None
  with assms(2) show ?thesis
    by (auto simp: getTenantInfo_def Let_def
        split: rpc_result.splits option.splits list.splits if_splits)
next
  case (Some c)
  then have "tenantCache w (cacheKey_of sd) = Some c" by (rule fresh_entry_SomeD)
  moreover from Some assms(2) have "data c = Some t" by (simp add: getTenantInfo_hit)
  ultimately show ?thesis using assms(1) by (auto simp: cache_active_only_def)
qed

lemma getTenantInfo_preserves:
  assumes "cache_active_only (tenantCache w)"
  shows "cache_active_only (tenantCache (snd (getTenantInfo remote now later sd w)))"
  using assms
  by (auto simp: getTenantInfo_def Let_def cache_active_only_def
      split: rpc_result.splits option.splits list.splits if_splits)

lemma setTenantContext_cache:
  "tenantCache (snd (setTenantContext remote i w)) = tenantCache w"
  by (simp add: setTenantContext_def Let_def split: rpc_result.splits)

lemma cache_active_only_clear:
  "cache_active_only (tenantCache w) \<Longrightarrow> cache_active_only (tenantCache (clearTenantCache sd w))"
  by (auto simp: cache_active_only_def clearTenantCache_def split: if_splits)

lemma cache_active_only_clearAll: "cache_active_only (tenantCache (clearAllTenantCache w))"
  by (simp add: cache_active_only_def clearAllTenantCache_def)

section \<open>Lemmas on the orchestrator\<close>

lemma resolveTenant_try_valid:
  assumes "extractSubdomain req = Inr (JString sd)" and "isValidSubdomain (JString sd)"
  shows "resolveTenant_try remote now later req w =
           (case getTenantInfo remote now later sd w of
              (None, w1) \<Rightarrow>
                (Inr \<lparr>error = Some
                        \<lparr>code = ''TENANT_NOT_FOUND'',
                         message = ''Tenant not found or inactive'',
                         details = ''No active tenant found for subdomain: '' @ sd\<rparr>,
                      tenant = None\<rparr>, w1)
            | (Some t, w1) \<Rightarrow>
                (case setTenantContext remote (ti_id t) w1 of
                   (Inl e, w2) \<Rightarrow> (Inl e, w2)
                 | (Inr u, w2) \<Rightarrow> (Inr \<lparr>error = None, tenant = Some t\<rparr>, w2)))"
  using assms isValidSubdomain_truthy [OF assms(2)]
  by (simp add: resolveTenant_try_def)

lemma resolveTenant_try_shape:
  assumes "resolveTenant_try remote now later req w = (Inr r, w')"
  shows "(case error r of
            None \<Rightarrow> tenant r \<noteq> None
          | Some e \<Rightarrow> tenant r = None \<and> code e \<in> set error_codes)"
  using assms
  by (auto simp: resolveTenant_try_def error_codes_def
      split: sum.splits if_splits jsval.splits prod.splits option.splits)

lemma resolveTenant_try_cases:
  "(snd (resolveTenant_try remote now later req w) = w
      \<and> (\<forall>r. fst (resolveTenant_try remote now later req w) = Inr r \<longrightarrow> tenant r = None))
   \<or> (\<exists>sd. extractSubdomain req = Inr (JString sd) \<and> isValidSubdomain (JString sd))"
proof (cases "extractSubdomain req")
  case (Inl e)
  then show ?thesis by (simp add: resolveTenant_try_def)
next
  case (Inr v)
  show ?thesis
  proof (cases "truthy v \<and> isValidSubdomain v")
    case True
    then obtain sd where "v = JString sd"
      by (cases v) (auto simp: isValidSubdomain_def)
    with True Inr show ?thesis by blast
  next
    case False
    with Inr show ?thesis by (auto simp: resolveTenant_try_def)
  qed
qed

lemma resolveTenant_try_cache:
  assumes inv: "cache_active_only (tenantCache w)"
  shows "cache_active_only (tenantCache (snd (resolveTenant_try remote now later req w)))"
proof -
  consider (same) "snd (resolveTenant_try remote now later req w) = w"
    | (valid) sd where "extractSubdomain req = Inr (JString sd)" "isValidSubdomain (JString sd)"
    using resolveTenant_try_cases [of remote now later req w] by blast
  then show ?thesis
  proof cases
    case same
    with inv show ?thesis by simp
  next
    case valid
    obtain res w1 where g: "getTenantInfo remote now later sd w = (res, w1)"
      by (cases "getTenantInfo remote now later sd w")
    have w1: "cache_active_only (tenantCache w1)"
      using getTenantInfo_preserves [OF inv, of remote now later sd] g by simp
    show ?thesis
    proof (cases res)
      case None
      with g w1 show ?thesis
        by (simp add: resolveTenant_try_valid [OF valid])
    next
      case (Some t)
      obtain x w2 where s: "setTenantContext remote (ti_id t) w1 = (x, w2)"
        by (cases "setTenantContext remote (ti_id t) w1")
      then have "tenantCache w2 = tenantCache w1"
        using setTenantContext_cache [of remote "ti_id t" w1] by simp
      with g Some s w1 show ?thesis
        by (cases x) (simp_all add: resolveTenant_try_valid [OF valid])
    qed
  qed
qed

lemma resolveTenant_snd:
  "snd (resolveTenant remote now later req w) = snd (resolveTenant_try remote now later req w)"
  by (simp add: resolveTenant_def split: prod.splits sum.splits)

lemma resolveTenant_try_tenant:
  assumes r: "resolveTenant_try remote now later req w = (Inr r, w')" and t: "tenant r = Some t"
  shows "\<exists>sd w1. getTenantInfo remote now later sd w = (Some t, w1)"
proof -
  from r t obtain sd where
    valid: "extractSubdomain req = Inr (JString sd)" "isValidSubdomain (JString sd)"
    using resolveTenant_try_cases [of remote now later req w] by auto
  obtain res w1 where g: "getTenantInfo remote now later sd w = (res, w1)"
    by (cases "getTenantInfo remote now later sd w")
  show ?thesis
  proof (cases res)
    case None
    with g r t show ?thesis by (auto simp: resolveTenant_try_valid [OF valid])
  next
    case (Some t')
    with g r t have "t' = t"
      by (auto simp: resolveTenant_try_valid [OF valid] split: prod.splits sum.splits)
    with g Some show ?thesis by blast
  qed
qed

lemma resolveTenant_tenant:
  assumes "resolveTenant remote now later req w = (Inr r, w')" and "tenant r = Some t"
  shows "\<exists>sd w1. getTenantInfo remote now later sd w = (Some t, w1)"
proof -
  from assms have "resolveTenant_try remote now later req w = (Inr r, w')"
    by (auto simp: resolveTenant_def split: prod.splits sum.splits)
  then show ?thesis using assms(2) by (rule resolveTenant_try_tenant)
qed

lemma reachable_cache_active: "reachable w \<Longrightarrow> cache_active_only (tenantCache w)"
proof (induction rule: reachable.induct)
  case init
  show ?case by (simp add: empty_world_def cache_active_only_def)
next
  case (lookup w remote now later sd)
  then show ?case by (simp add: getTenantInfo_preserves)
next
  case (resolve w remote now later req)
  then show ?case by (simp add: resolveTenant_snd resolveTenant_try_cache)
next
  case (clear w sd)
  then show ?case by (simp add: cache_active_only_clear)
next
  case (clearAll w)
  show ?case by (rule cache_active_only_clearAll)
qed

section \<open>The output contract of the orchestrator\<close>

text \<open>
  C1. For every request, remote service, clock reading and state, \<open>resolveTenant\<close> called
  without \<open>next\<close> returns a result (no exception leaves it), and in that result exactly
  one of \<open>tenant\<close> and \<open>error\<close> is non-null; an error is an object with \<open>code\<close>,
  \<open>message\<close> and \<open>details\<close> whose code is one of the four error codes.
\<close>

theorem resolveTenant_contract:
  "\<exists>r w'. resolveTenant remote now later req w = (Inr r, w')
         \<and> (tenant r = None) \<noteq> (error r = None)
         \<and> (case error r of
               None \<Rightarrow> tenant r \<noteq> None
             | Some e \<Rightarrow> tenant r = None \<and> code e \<in> set error_codes)"
proof (cases "resolveTenant_try remote now later req w")
  case (Pair res w')
  show ?thesis
  proof (cases res)
    case (Inl e)
    with Pair show ?thesis by (simp add: resolveTenant_def error_codes_def)
  next
    case (Inr r)
    with Pair have "resolveTenant remote now later req w = (Inr r, w')"
      by (simp add: resolveTenant_def)
    moreover from Pair Inr have s: "(case error r of
            None \<Rightarrow> tenant r \<noteq> None
          | Some e \<Rightarrow> tenant r = None \<and> code e \<in> set error_codes)"
      using resolveTenant_try_shape by blast
    moreover from s have "(tenant r = None) \<noteq> (error r = None)"
      by (auto split: option.splits)
    ultimately show ?thesis by blast
  qed
qed

text \<open>
  An instance of C1: a request without headers makes the extractor raise a \<open>TypeError\<close>,
  which comes back as the structured error \<open>TENANT_RESOLUTION_ERROR\<close>.
\<close>

theorem resolveTenant_contract_witness:
  "resolveTenant (remote_returning RpcError RpcError) 0 0
       \<lparr>req_headers = None, query_tenant = JNull\<rparr> empty_world
     = (Inr \<lparr>error = Some
                \<lparr>code = ''TENANT_RESOLUTION_ERROR'',
                 message = ''Error resolving tenant'',
                 details = ''An internal error occurred while resolving tenant information''\<rparr>,
              tenant = None\<rparr>, empty_world)"
  using resolveTenant_contract [of "remote_returning RpcError RpcError" 0 0
      "\<lparr>req_headers = None, query_tenant = JNull\<rparr>" empty_world]
  by (simp add: resolveTenant_def resolveTenant_try_def extractSubdomain_def)

section \<open>What the lookup service caches\<close>

text \<open>
  C2 says that a record whose status is not active is cached as "not found". At the
  lookup of \<open>go\<close> on an empty cache, with a remote store answering one row of status
  \<open>suspended\<close>, \<open>getTenantInfo\<close> returns nothing and leaves the cache without an entry
  for \<open>go\<close>, so that the next lookup, one second later, calls the remote store again.
  The branch for zero rows stores the negative result; the branch for an inactive row
  returns before any store.
\<close>

theorem inactive_lookup_not_cached:
  "fst (getTenantInfo (remote_returning (RpcData (Some [row_with_status ''suspended''])) (RpcData ()))
          0 1 ''go'' empty_world) = None
   \<and> tenantCache (snd (getTenantInfo
          (remote_returning (RpcData (Some [row_with_status ''suspended''])) (RpcData ()))
          0 1 ''go'' empty_world)) (cacheKey_of ''go'') = None
   \<and> rpc_log (snd (getTenantInfo
          (remote_returning (RpcData (Some [row_with_status ''suspended''])) (RpcData ()))
          1000 1001 ''go''
          (snd (getTenantInfo
             (remote_returning (RpcData (Some [row_with_status ''suspended''])) (RpcData ()))
             0 1 ''go'' empty_world))))
       = [GetTenantBySubdomain ''go'', GetTenantBySubdomain ''go'']"
  by (simp add: getTenantInfo_def fresh_entry_def empty_world_def remote_returning_def
      row_with_status_def)

text \<open>
  C3. When the cache holds no fresh entry for the identifier, so that the remote lookup
  is made, and that lookup fails (it resolves with an error or it throws),
  \<open>getTenantInfo\<close> returns nothing and the cache is what it was, for this key and for
  every other; the one remote call is recorded.
\<close>

theorem getTenantInfo_remote_failure:
  assumes "fresh_entry now (tenantCache w (cacheKey_of sd)) = None"
    and "get_tenant_by_subdomain remote sd = RpcError
         \<or> get_tenant_by_subdomain remote sd = RpcThrows"
  shows "fst (getTenantInfo remote now later sd w) = None
         \<and> tenantCache (snd (getTenantInfo remote now later sd w)) = tenantCache w
         \<and> rpc_log (snd (getTenantInfo remote now later sd w))
             = rpc_log w @ [GetTenantBySubdomain sd]"
  using getTenantInfo_miss_failure [OF assms] by simp

text \<open>An instance of C3: the remote call throws on the first lookup of \<open>acme\<close>.\<close>

theorem getTenantInfo_remote_failure_witness:
  "fst (getTenantInfo (remote_returning RpcThrows RpcError) 0 1 ''acme'' empty_world) = None
   \<and> tenantCache (snd (getTenantInfo (remote_returning RpcThrows RpcError) 0 1 ''acme'' empty_world))
       = tenantCache empty_world
   \<and> rpc_log (snd (getTenantInfo (remote_returning RpcThrows RpcError) 0 1 ''acme'' empty_world))
       = rpc_log empty_world @ [GetTenantBySubdomain ''acme'']"
  using getTenantInfo_remote_failure [of 0 empty_world "''acme''"
      "remote_returning RpcThrows RpcError" 1]
  by (simp add: fresh_entry_def empty_world_def remote_returning_def)

section \<open>Two lookups within the time to live\<close>

text \<open>
  C4 as stated fails: with a remote store that answers every lookup with an error, two
  lookups of \<open>acme\<close> one second apart issue two remote calls, since a failed lookup
  stores nothing.
\<close>

theorem two_lookups_counterexample:
  "(1000::int) - 1 < CACHE_TTL
   \<and> rpc_log (snd (getTenantInfo (remote_returning RpcError RpcError) 1000 1001 ''acme''
          (snd (getTenantInfo (remote_returning RpcError RpcError) 0 1 ''acme'' empty_world))))
       = [GetTenantBySubdomain ''acme'', GetTenantBySubdomain ''acme'']"
  by (simp add: getTenantInfo_def fresh_entry_def empty_world_def remote_returning_def
      CACHE_TTL_def)

text \<open>
  C4, amended. Take two consecutive lookups of one identifier: the second starts after the
  first has returned, on the state the first left.

  If the second is made less than the time to live after the first stored its result
  (\<open>now2 - later1 < CACHE_TTL\<close>, which holds whenever the second lookup starts less than
  the time to live after the first one started), and the first lookup is answered by a
  fresh cache entry, or its remote lookup returns without error zero rows or a first row
  that is active, then the two lookups issue at most one remote call in total; and when
  the first one had to call the remote store, the second one issues no call, changes
  nothing and returns what the first returned, whatever the remote store would answer by
  then.

  If the first lookup finds no fresh entry and its remote lookup fails (it resolves with
  an error or it throws), the first lookup returns nothing and stores nothing; and if the
  clock has not stepped back between the two lookups (\<open>now1 \<le> now2\<close>), the second lookup
  issues a remote call of its own, so that the two lookups issue two remote calls.
\<close>

theorem two_lookups_one_remote_call:
  assumes first: "getTenantInfo remote1 now1 later1 sd w = (r1, w1)"
    and second: "getTenantInfo remote2 now2 later2 sd w1 = (r2, w2)"
  shows "(now2 - later1 < CACHE_TTL \<longrightarrow>
            (fresh_entry now1 (tenantCache w (cacheKey_of sd)) \<noteq> None
             \<or> (\<exists>d. get_tenant_by_subdomain remote1 sd = RpcData d
                    \<and> (d = None \<or> d = Some []
                        \<or> (\<exists>row rest. d = Some (row # rest)
                                        \<and> tenant_status row = ''active'')))) \<longrightarrow>
            length (rpc_log w2) \<le> length (rpc_log w) + 1
            \<and> (fresh_entry now1 (tenantCache w (cacheKey_of sd)) = None \<longrightarrow>
                  rpc_log w1 = rpc_log w @ [GetTenantBySubdomain sd] \<and> w2 = w1 \<and> r2 = r1))
       \<and> (fresh_entry now1 (tenantCache w (cacheKey_of sd)) = None \<longrightarrow>
            (get_tenant_by_subdomain remote1 sd = RpcError
             \<or> get_tenant_by_subdomain remote1 sd = RpcThrows) \<longrightarrow>
            now1 \<le> now2 \<longrightarrow>
            r1 = None \<and> tenantCache w1 = tenantCache w
            \<and> rpc_log w2 = rpc_log w @ [GetTenantBySubdomain sd, GetTenantBySubdomain sd])"
proof (rule conjI; intro impI)
  assume within: "now2 - later1 < CACHE_TTL"
    and cacheable:
      "fresh_entry now1 (tenantCache w (cacheKey_of sd)) \<noteq> None
       \<or> (\<exists>d. get_tenant_by_subdomain remote1 sd = RpcData d
              \<and> (d = None \<or> d = Some []
                  \<or> (\<exists>row rest. d = Some (row # rest) \<and> tenant_status row = ''active'')))"
  show "length (rpc_log w2) \<le> length (rpc_log w) + 1
         \<and> (fresh_entry now1 (tenantCache w (cacheKey_of sd)) = None \<longrightarrow>
              rpc_log w1 = rpc_log w @ [GetTenantBySubdomain sd] \<and> w2 = w1 \<and> r2 = r1)"
  proof (cases "fresh_entry now1 (tenantCache w (cacheKey_of sd))")
    case (Some c)
    with first have "w1 = w" by (simp add: getTenantInfo_hit)
    moreover have "length (rpc_log w2) \<le> length (rpc_log w1) + 1"
      using getTenantInfo_log [of remote2 now2 later2 sd w1] second by auto
    ultimately show ?thesis using Some by simp
  next
    case None
    with cacheable obtain d where d: "get_tenant_by_subdomain remote1 sd = RpcData d"
      and shape: "d = None \<or> d = Some []
                  \<or> (\<exists>row rest. d = Some (row # rest) \<and> tenant_status row = ''active'')"
      by blast
    have stored: "w1 = w\<lparr>rpc_log := rpc_log w @ [GetTenantBySubdomain sd],
                        tenantCache := (tenantCache w)
                          (cacheKey_of sd \<mapsto> \<lparr>data = r1, timestamp = later1\<rparr>)\<rparr>"
    proof (cases "d = None \<or> d = Some []")
      case True
      from getTenantInfo_miss_absent [OF None d True] first
      show ?thesis by simp
    next
      case False
      with shape obtain row rest where r: "d = Some (row # rest)" "tenant_status row = ''active''"
        by blast
      from getTenantInfo_miss_active [OF None d [unfolded r(1)] r(2) refl] first
      show ?thesis by auto
    qed
    have "fresh_entry now2 (tenantCache w1 (cacheKey_of sd))
            = Some \<lparr>data = r1, timestamp = later1\<rparr>"
      using within by (simp add: stored fresh_entry_def)
    then have "getTenantInfo remote2 now2 later2 sd w1 = (r1, w1)"
      using getTenantInfo_hit by fastforce
    with second have "w2 = w1" "r2 = r1" by simp_all
    moreover have "rpc_log w1 = rpc_log w @ [GetTenantBySubdomain sd]"
      by (simp add: stored)
    ultimately show ?thesis by simp
  qed
next
  assume miss: "fresh_entry now1 (tenantCache w (cacheKey_of sd)) = None"
    and fails: "get_tenant_by_subdomain remote1 sd = RpcError
                \<or> get_tenant_by_subdomain remote1 sd = RpcThrows"
    and clock: "now1 \<le> now2"
  have w1: "r1 = None" "w1 = w\<lparr>rpc_log := rpc_log w @ [GetTenantBySubdomain sd]\<rparr>"
    using getTenantInfo_miss_failure [OF miss fails, of later1] first by simp_all
  then have cache: "tenantCache w1 = tenantCache w" by simp
  have "fresh_entry now2 (tenantCache w1 (cacheKey_of sd)) = None"
    using fresh_entry_later [OF miss clock] cache by simp
  then have "rpc_log w2 = rpc_log w1 @ [GetTenantBySubdomain sd]"
    using getTenantInfo_miss_log [of now2 w1 sd remote2 later2] second by simp
  with w1 cache
  show "r1 = None \<and> tenantCache w1 = tenantCache w
        \<and> rpc_log w2 = rpc_log w @ [GetTenantBySubdomain sd, GetTenantBySubdomain sd]"
    by simp
qed

text \<open>
  Instances of amended C4. The first lookup of \<open>ab\<close> finds zero rows; the second, one
  second later, is answered from the cache although the remote store would throw. The
  first lookup of \<open>zz\<close> meets a remote store that throws; the second, one second later,
  calls the remote store again.
\<close>

theorem two_lookups_one_remote_call_witness:
  "getTenantInfo (remote_returning (RpcData (Some [])) (RpcData ())) 0 1 ''ab'' empty_world
     = (None, absent_cached 1)
   \<and> getTenantInfo (remote_returning RpcThrows RpcThrows) 1000 1001 ''ab'' (absent_cached 1)
     = (None, absent_cached 1)
   \<and> length (rpc_log (absent_cached 1)) \<le> length (rpc_log empty_world) + 1
   \<and> getTenantInfo (remote_returning RpcThrows RpcThrows) 0 1 ''zz'' empty_world
     = (None, empty_world\<lparr>rpc_log := [GetTenantBySubdomain ''zz'']\<rparr>)
   \<and> tenantCache (empty_world\<lparr>rpc_log := [GetTenantBySubdomain ''zz'']\<rparr>)
     = tenantCache empty_world
   \<and> rpc_log (snd (getTenantInfo (remote_returning (RpcData (Some [])) (RpcData ()))
                      1000 1001 ''zz''
                      (empty_world\<lparr>rpc_log := [GetTenantBySubdomain ''zz'']\<rparr>)))
     = rpc_log empty_world @ [GetTenantBySubdomain ''zz'', GetTenantBySubdomain ''zz'']"
proof -
  have f: "getTenantInfo (remote_returning (RpcData (Some [])) (RpcData ())) 0 1 ''ab'' empty_world
     = (None, absent_cached 1)"
    by (simp add: getTenantInfo_def fresh_entry_def empty_world_def remote_returning_def
        absent_cached_def)
  have s: "getTenantInfo (remote_returning RpcThrows RpcThrows) 1000 1001 ''ab'' (absent_cached 1)
     = (None, absent_cached 1)"
    by (simp add: getTenantInfo_def fresh_entry_def absent_cached_def CACHE_TTL_def)
  have t: "(1000::int) - 1 < CACHE_TTL" by (simp add: CACHE_TTL_def)
  have c: "fresh_entry 0 (tenantCache empty_world (cacheKey_of ''ab'')) \<noteq> None
       \<or> (\<exists>d. get_tenant_by_subdomain (remote_returning (RpcData (Some [])) (RpcData ())) ''ab''
                = RpcData d
              \<and> (d = None \<or> d = Some []
                  \<or> (\<exists>row rest. d = Some (row # rest) \<and> tenant_status row = ''active'')))"
    by (simp add: remote_returning_def)
  have served: "length (rpc_log (absent_cached 1)) \<le> length (rpc_log empty_world) + 1"
    using two_lookups_one_remote_call [OF f s] t c by blast
  have f': "getTenantInfo (remote_returning RpcThrows RpcThrows) 0 1 ''zz'' empty_world
     = (None, empty_world\<lparr>rpc_log := [GetTenantBySubdomain ''zz'']\<rparr>)"
    by (simp add: getTenantInfo_def fresh_entry_def empty_world_def remote_returning_def)
  obtain r2 w2 where s':
    "getTenantInfo (remote_returning (RpcData (Some [])) (RpcData ())) 1000 1001 ''zz''
       (empty_world\<lparr>rpc_log := [GetTenantBySubdomain ''zz'']\<rparr>) = (r2, w2)"
    by (cases "getTenantInfo (remote_returning (RpcData (Some [])) (RpcData ())) 1000 1001 ''zz''
       (empty_world\<lparr>rpc_log := [GetTenantBySubdomain ''zz'']\<rparr>)")
  have m: "fresh_entry 0 (tenantCache empty_world (cacheKey_of ''zz'')) = None"
    by (simp add: fresh_entry_def empty_world_def)
  have e: "get_tenant_by_subdomain (remote_returning RpcThrows RpcThrows) ''zz'' = RpcError
           \<or> get_tenant_by_subdomain (remote_returning RpcThrows RpcThrows) ''zz'' = RpcThrows"
    by (simp add: remote_returning_def)
  have k: "(0::int) \<le> 1000" by simp
  have again:
    "tenantCache (empty_world\<lparr>rpc_log := [GetTenantBySubdomain ''zz'']\<rparr>)
       = tenantCache empty_world
     \<and> rpc_log w2
       = rpc_log empty_world @ [GetTenantBySubdomain ''zz'', GetTenantBySubdomain ''zz'']"
    using two_lookups_one_remote_call [OF f' s'] m e k by blast
  from f s served f' s' again show ?thesis by simp
qed

section \<open>Expiry of cache entries\<close>

text \<open>
  C5. When the cache holds an entry for the identifier and the lookup is made at a time
  \<open>now\<close> with \<open>now - timestamp \<ge> CACHE_TTL\<close>, the lookup issues a remote call, and what
  it returns is what it would return had the entry been removed first: the cached value
  is not used.
\<close>

theorem getTenantInfo_stale:
  assumes "tenantCache w (cacheKey_of sd) = Some c"
    and "now - timestamp c \<ge> CACHE_TTL"
  shows "rpc_log (snd (getTenantInfo remote now later sd w))
           = rpc_log w @ [GetTenantBySubdomain sd]
         \<and> fst (getTenantInfo remote now later sd w)
           = fst (getTenantInfo remote now later sd (clearTenantCache sd w))"
proof -
  have a: "fresh_entry now (tenantCache w (cacheKey_of sd)) = None"
    using assms by (simp add: fresh_entry_def)
  have b: "fresh_entry now (tenantCache (clearTenantCache sd w) (cacheKey_of sd)) = None"
    by (simp add: fresh_entry_def clearTenantCache_def)
  show ?thesis using a b
    by (auto simp: getTenantInfo_def Let_def split: rpc_result.splits option.splits list.splits)
qed

text \<open>
  An instance of C5: a "not found" entry for \<open>acme\<close> stored at time 0 is exactly 5 minutes
  old at time 300000; the lookup calls the remote store and returns the active record.
\<close>

theorem getTenantInfo_stale_witness:
  "rpc_log (snd (getTenantInfo
        (remote_returning (RpcData (Some [row_with_status ''active''])) (RpcData ()))
        300000 300001 ''acme'' stale_world))
     = [GetTenantBySubdomain ''acme'']
   \<and> fst (getTenantInfo
        (remote_returning (RpcData (Some [row_with_status ''active''])) (RpcData ()))
        300000 300001 ''acme'' stale_world)
     = Some acme_info"
proof -
  have s: "fst (getTenantInfo
        (remote_returning (RpcData (Some [row_with_status ''active''])) (RpcData ()))
        300000 300001 ''acme'' (clearTenantCache ''acme'' stale_world))
     = Some acme_info"
    by (simp add: getTenantInfo_def clearTenantCache_def stale_world_def fresh_entry_def
        remote_returning_def row_with_status_def acme_info_def Let_def)
  show ?thesis
    using s getTenantInfo_stale [of stale_world "''acme''" "\<lparr>data = None, timestamp = 0\<rparr>" 300000
        "remote_returning (RpcData (Some [row_with_status ''active''])) (RpcData ())" 300001]
    by (simp add: stale_world_def CACHE_TTL_def)
qed

section \<open>The extractor on production host names\<close>

text \<open>
  C6 as stated fails on a host name that carries a development marker: \<open>acme.dev.localhost\<close>
  has three segments and its first segment \<open>acme\<close> is not in the exclusion set, yet the
  extractor takes the development rule and returns the fallback \<open>demo\<close>.
\<close>

theorem extractSubdomain_localhost_counterexample:
  "length (split_on CHR ''.'' ''acme.dev.localhost'') \<ge> 3
   \<and> hd (split_on CHR ''.'' ''acme.dev.localhost'') = ''acme''
   \<and> toLowerCase ''acme'' \<notin> set excludedSubdomains
   \<and> extractSubdomain (req_of_host ''acme.dev.localhost'') = Inr (JString ''demo'')
   \<and> extractSubdomain (req_of_host ''acme.dev.localhost'') \<noteq> Inr (JString ''acme'')"
  by (simp add: extractSubdomain_def req_of_host_def js_or_def toLowerCase_def lowerChar_def
      excludedSubdomains_def)

text \<open>
  C6, amended. Let the host name be the host header (or, when that is absent or empty, the
  forwarded-host header) up to its first colon. For every host name that contains neither
  \<open>localhost\<close> nor \<open>127.0.0.1\<close> and has at least 3 dot-separated segments: if the first
  segment, in lower case, is not one of \<open>www\<close>, \<open>api\<close>, \<open>admin\<close>, \<open>app\<close>, the extractor
  returns that first segment; otherwise it returns nothing.
\<close>

theorem extractSubdomain_production:
  assumes hs: "req_headers req = Some hs"
    and h: "js_or (host hs) (x_forwarded_host hs) = JString h" "h \<noteq> []"
    and hn: "hostname = hd (split_on CHR '':'' h)"
    and prod: "\<not> str_includes hostname ''localhost''" "\<not> str_includes hostname ''127.0.0.1''"
    and parts: "length (split_on CHR ''.'' hostname) \<ge> 3"
  shows "extractSubdomain req =
           Inr (if toLowerCase (hd (split_on CHR ''.'' hostname)) \<in> set excludedSubdomains
                then JNull
                else JString (hd (split_on CHR ''.'' hostname)))"
  using assms by (simp add: extractSubdomain_def Let_def)

text \<open>
  Instances of amended C6: \<open>acme.example.com:8080\<close> yields \<open>acme\<close>, and
  \<open>WWW.example.com\<close> yields nothing.
\<close>

theorem extractSubdomain_production_witness:
  "extractSubdomain (req_of_host ''acme.example.com:8080'') = Inr (JString ''acme'')
   \<and> extractSubdomain (req_of_host ''WWW.example.com'') = Inr JNull"
proof -
  have a: "extractSubdomain (req_of_host ''acme.example.com:8080'') = Inr (JString ''acme'')"
    using extractSubdomain_production [of "req_of_host ''acme.example.com:8080''"
        "\<lparr>host = JString ''acme.example.com:8080'', x_forwarded_host = JNull\<rparr>"
        "''acme.example.com:8080''" "''acme.example.com''"]
    by (simp add: req_of_host_def js_or_def toLowerCase_def lowerChar_def excludedSubdomains_def)
  have b: "extractSubdomain (req_of_host ''WWW.example.com'') = Inr JNull"
    using extractSubdomain_production [of "req_of_host ''WWW.example.com''"
        "\<lparr>host = JString ''WWW.example.com'', x_forwarded_host = JNull\<rparr>"
        "''WWW.example.com''" "''WWW.example.com''"]
    by (simp add: req_of_host_def js_or_def toLowerCase_def lowerChar_def excludedSubdomains_def)
  from a b show ?thesis by simp
qed

section \<open>What the validator rejects\<close>

text \<open>
  C7. The validator returns false for every string that is shorter than 2 characters,
  longer than 50 characters, begins or ends with a hyphen, or is, in lower case, one of
  the thirteen reserved words.
\<close>

theorem isValidSubdomain_rejects:
  assumes "length s < 2 \<or> length s > 50
           \<or> (s \<noteq> [] \<and> (hd s = CHR ''-'' \<or> last s = CHR ''-''))
           \<or> toLowerCase s \<in> set reservedSubdomains"
  shows "isValidSubdomain (JString s) = False"
proof -
  consider (len) "length s < 2 \<or> length s > 50"
    | (hyph) "s \<noteq> []" "hd s = CHR ''-'' \<or> last s = CHR ''-''"
    | (res) "toLowerCase s \<in> set reservedSubdomains"
    using assms by blast
  then show ?thesis
  proof cases
    case len
    then show ?thesis by (auto simp: isValidSubdomain_def)
  next
    case hyph
    have "\<not> subdomainRegex_test s"
    proof
      assume "subdomainRegex_test s"
      then have "alnum (hd s) \<and> alnum (last s)" using regex_first_last by blast
      with hyph(2) hyphen_not_alnum show False by auto
    qed
    then show ?thesis by (simp add: isValidSubdomain_def)
  next
    case res
    then show ?thesis by (simp add: isValidSubdomain_def)
  qed
qed

text \<open>
  Instances of C7: a string of one character, a leading hyphen, a trailing hyphen, and
  the reserved word \<open>admin\<close> written \<open>Admin\<close>.
\<close>

theorem isValidSubdomain_rejects_witness:
  "isValidSubdomain (JString ''a'') = False
   \<and> isValidSubdomain (JString ''-ab'') = False
   \<and> isValidSubdomain (JString ''ab-'') = False
   \<and> isValidSubdomain (JString ''Admin'') = False
   \<and> toLowerCase ''Admin'' \<in> set reservedSubdomains"
proof -
  have r: "toLowerCase ''Admin'' \<in> set reservedSubdomains"
    by (simp add: toLowerCase_def lowerChar_def reservedSubdomains_def)
  have "isValidSubdomain (JString ''a'') = False"
    using isValidSubdomain_rejects [of "''a''"] by simp
  moreover have "isValidSubdomain (JString ''-ab'') = False"
    using isValidSubdomain_rejects [of "''-ab''"] by simp
  moreover have "isValidSubdomain (JString ''ab-'') = False"
    using isValidSubdomain_rejects [of "''ab-''"] by simp
  moreover have "isValidSubdomain (JString ''Admin'') = False"
    using isValidSubdomain_rejects [of "''Admin''"] r by simp
  ultimately show ?thesis using r by simp
qed

section \<open>Failure of the context-setting call\<close>

text \<open>
  C8. When a request reaches the context-setting step (the extractor yields a string, the
  validator accepts it, and the lookup returns a tenant record) and the remote call
  \<open>set_tenant_context\<close> fails (it resolves with an error or it throws), \<open>resolveTenant\<close>
  returns \<open>tenant\<close> null with an error of code \<open>TENANT_RESOLUTION_ERROR\<close>.
\<close>

theorem setTenantContext_failure_fails_resolution:
  assumes "extractSubdomain req = Inr (JString sd)"
    and "isValidSubdomain (JString sd)"
    and "getTenantInfo remote now later sd w = (Some t, w1)"
    and "set_tenant_context remote (ti_id t) = RpcError
         \<or> set_tenant_context remote (ti_id t) = RpcThrows"
  shows "\<exists>e. resolveTenant remote now later req w
               = (Inr \<lparr>error = Some e, tenant = None\<rparr>,
                  w1\<lparr>rpc_log := rpc_log w1 @ [SetTenantContext (ti_id t)]\<rparr>)
             \<and> code e = ''TENANT_RESOLUTION_ERROR''"
proof -
  have "\<exists>x. setTenantContext remote (ti_id t) w1
               = (Inl x, w1\<lparr>rpc_log := rpc_log w1 @ [SetTenantContext (ti_id t)]\<rparr>)"
    using assms(4) by (auto simp: setTenantContext_def)
  then show ?thesis
    using resolveTenant_try_valid [OF assms(1,2), of remote now later w] assms(3)
    by (auto simp: resolveTenant_def)
qed

text \<open>
  An instance of C8: \<open>acme.example.com\<close> resolves to an active tenant, and the
  context-setting call resolves with an error.
\<close>

theorem setTenantContext_failure_fails_resolution_witness:
  "\<exists>e. resolveTenant (remote_returning (RpcData (Some [row_with_status ''active''])) RpcError)
          0 1 (req_of_host ''acme.example.com'') empty_world
        = (Inr \<lparr>error = Some e, tenant = None\<rparr>,
           (acme_cached 1)\<lparr>rpc_log := rpc_log (acme_cached 1)
                                        @ [SetTenantContext (ti_id acme_info)]\<rparr>)
      \<and> code e = ''TENANT_RESOLUTION_ERROR''"
  using setTenantContext_failure_fails_resolution [OF acme_extract acme_valid acme_lookup]
  by (simp add: remote_returning_def)

section \<open>Only active tenants are returned\<close>

text \<open>
  C9. In every reachable state, for every request and every answer of the remote store:
  a tenant record returned by \<open>getTenantInfo\<close>, and so one returned by \<open>resolveTenant\<close>,
  has the status \<open>active\<close>; and when the remote lookup is made and its first row has
  another status, \<open>getTenantInfo\<close> returns nothing and \<open>resolveTenant\<close> returns \<open>tenant\<close>
  null with an error of code \<open>TENANT_NOT_FOUND\<close>, as for an absent tenant.
\<close>

theorem only_active_tenants_returned:
  assumes reach: "reachable w"
  shows "(\<forall>t w'. getTenantInfo remote now later sd w = (Some t, w') \<longrightarrow> ti_status t = ''active'')
       \<and> (\<forall>r t w'. resolveTenant remote now later req w = (Inr r, w') \<longrightarrow> tenant r = Some t
             \<longrightarrow> ti_status t = ''active'')
       \<and> (\<forall>row rest.
            extractSubdomain req = Inr (JString sd) \<longrightarrow> isValidSubdomain (JString sd) \<longrightarrow>
            fresh_entry now (tenantCache w (cacheKey_of sd)) = None \<longrightarrow>
            get_tenant_by_subdomain remote sd = RpcData (Some (row # rest)) \<longrightarrow>
            tenant_status row \<noteq> ''active'' \<longrightarrow>
            fst (getTenantInfo remote now later sd w) = None
            \<and> (\<exists>e. fst (resolveTenant remote now later req w)
                      = Inr \<lparr>error = Some e, tenant = None\<rparr>
                    \<and> code e = ''TENANT_NOT_FOUND''))"
proof (intro conjI allI impI)
  have inv: "cache_active_only (tenantCache w)"
    using reach by (rule reachable_cache_active)
  {
    fix t w' assume "getTenantInfo remote now later sd w = (Some t, w')"
    with inv show "ti_status t = ''active''" by (rule getTenantInfo_active)
  }
  {
    fix r t w'
    assume "resolveTenant remote now later req w = (Inr r, w')" "tenant r = Some t"
    then obtain sd' w1 where "getTenantInfo remote now later sd' w = (Some t, w1)"
      using resolveTenant_tenant by blast
    with inv show "ti_status t = ''active''" by (rule getTenantInfo_active)
  }
  {
    fix row rest
    assume a: "extractSubdomain req = Inr (JString sd)" "isValidSubdomain (JString sd)"
      "fresh_entry now (tenantCache w (cacheKey_of sd)) = None"
      "get_tenant_by_subdomain remote sd = RpcData (Some (row # rest))"
      "tenant_status row \<noteq> ''active''"
    have g: "getTenantInfo remote now later sd w
             = (None, w\<lparr>rpc_log := rpc_log w @ [GetTenantBySubdomain sd]\<rparr>)"
      using a(3,4,5) by (rule getTenantInfo_miss_inactive)
    then show "fst (getTenantInfo remote now later sd w) = None" by simp
    show "\<exists>e. fst (resolveTenant remote now later req w) = Inr \<lparr>error = Some e, tenant = None\<rparr>
                      \<and> code e = ''TENANT_NOT_FOUND''"
      using resolveTenant_try_valid [OF a(1,2), of remote now later w] g
      by (simp add: resolveTenant_def)
  }
qed

text \<open>
  Instances of C9 on the empty cache: \<open>go.example.com\<close> with a suspended record resolves
  as not found, and the record returned for \<open>acme\<close> is active.
\<close>

theorem only_active_tenants_returned_witness:
  "reachable empty_world
   \<and> fst (getTenantInfo
            (remote_returning (RpcData (Some [row_with_status ''suspended''])) (RpcData ()))
            0 1 ''go'' empty_world) = None
   \<and> (\<exists>e. fst (resolveTenant
                  (remote_returning (RpcData (Some [row_with_status ''suspended''])) (RpcData ()))
                  0 1 (req_of_host ''go.example.com'') empty_world)
             = Inr \<lparr>error = Some e, tenant = None\<rparr>
           \<and> code e = ''TENANT_NOT_FOUND'')
   \<and> ti_status acme_info = ''active''"
proof -
  have inv: "reachable empty_world" by (rule reachable.init)
  have ex: "extractSubdomain (req_of_host ''go.example.com'') = Inr (JString ''go'')"
    by (simp add: extractSubdomain_def req_of_host_def js_or_def toLowerCase_def lowerChar_def
        excludedSubdomains_def)
  have va: "isValidSubdomain (JString ''go'')"
    by (simp add: isValidSubdomain_def subdomainRegex_test_def alnum_def alnumHyphen_def
        toLowerCase_def lowerChar_def reservedSubdomains_def)
  have fr: "fresh_entry 0 (tenantCache empty_world (cacheKey_of ''go'')) = None"
    by (simp add: fresh_entry_def empty_world_def)
  have st: "tenant_status (row_with_status ''suspended'') \<noteq> ''active''"
    by (simp add: row_with_status_def)
  have a: "ti_status acme_info = ''active''"
    using only_active_tenants_returned [OF inv,
        of "remote_returning (RpcData (Some [row_with_status ''active''])) (RpcData ())" 0 1
        "''acme''" "req_of_host ''acme.example.com''"] acme_lookup
    by blast
  show ?thesis
    using only_active_tenants_returned [OF inv,
        of "remote_returning (RpcData (Some [row_with_status ''suspended''])) (RpcData ())" 0 1
        "''go''" "req_of_host ''go.example.com''"] inv ex va fr st a
    by (simp add: remote_returning_def)
qed

section \<open>An empty first segment\<close>

text \<open>
  C10. For every production host name (one that contains neither \<open>localhost\<close> nor
  \<open>127.0.0.1\<close>) with at least 3 dot-separated segments whose first segment is empty, the
  extractor returns the empty string, and \<open>resolveTenant\<close> returns \<open>tenant\<close> null with an
  error of code \<open>INVALID_SUBDOMAIN\<close>, as for a missing candidate, leaving the cache and the
  remote store untouched.
\<close>

theorem empty_first_segment:
  assumes hs: "req_headers req = Some hs"
    and h: "js_or (host hs) (x_forwarded_host hs) = JString h" "h \<noteq> []"
    and hn: "hostname = hd (split_on CHR '':'' h)"
    and prod: "\<not> str_includes hostname ''localhost''" "\<not> str_includes hostname ''127.0.0.1''"
    and parts: "length (split_on CHR ''.'' hostname) \<ge> 3"
    and empty: "hd (split_on CHR ''.'' hostname) = []"
  shows "extractSubdomain req = Inr (JString [])
         \<and> (\<exists>e. resolveTenant remote now later req w = (Inr \<lparr>error = Some e, tenant = None\<rparr>, w)
                 \<and> code e = ''INVALID_SUBDOMAIN'')"
proof -
  have "toLowerCase [] \<notin> set excludedSubdomains"
    by (simp add: toLowerCase_def excludedSubdomains_def)
  with assms have ex: "extractSubdomain req = Inr (JString [])"
    by (simp add: extractSubdomain_def Let_def)
  then show ?thesis
    by (simp add: resolveTenant_def resolveTenant_try_def)
qed

text \<open>An instance of C10: the host \<open>.example.com\<close>.\<close>

theorem empty_first_segment_witness:
  "extractSubdomain (req_of_host ''.example.com'') = Inr (JString [])
   \<and> (\<exists>e. resolveTenant (remote_returning RpcError RpcError) 0 0
            (req_of_host ''.example.com'') empty_world
            = (Inr \<lparr>error = Some e, tenant = None\<rparr>, empty_world)
          \<and> code e = ''INVALID_SUBDOMAIN'')"
  using empty_first_segment [of "req_of_host ''.example.com''"
      "\<lparr>host = JString ''.example.com'', x_forwarded_host = JNull\<rparr>"
      "''.example.com''" "''.example.com''" "remote_returning RpcError RpcError" 0 0 empty_world]
  by (simp add: req_of_host_def js_or_def)

end
